theory Spec2Isabelle
  imports Main "HOL-Library.AList"
begin

section \<open>JavaScript values, as far as the node modal handles them\<close>

text \<open>
  The helpers of \<^verbatim>\<open>src/features/modals/NodeModal/index.tsx\<close> work on the result of
  \<^verbatim>\<open>JSON.parse\<close> (typed \<^verbatim>\<open>unknown\<close>) and return \<^verbatim>\<open>undefined\<close> for "not found", so the
  value type is JSON plus \<^verbatim>\<open>undefined\<close>.

  \<^item> A number is opaque to every helper; only its rendering as text is ever used. Numbers
    are modelled as integers, rendered in decimal (what JavaScript prints for an integer of
    magnitude below \<open>10\<^sup>2\<^sup>1\<close>).
  \<^item> An array is the list of its elements. A hole of a sparse array reads as
    \<^verbatim>\<open>undefined\<close>, is copied as \<^verbatim>\<open>undefined\<close> by the spread \<^verbatim>\<open>[...node]\<close> and is serialised
    like \<^verbatim>\<open>undefined\<close>, so it is modelled as the element \<open>JUndefined\<close>.
  \<^item> An object is the list of its own enumerable properties in the order in which
    JavaScript enumerates them (\<^verbatim>\<open>Object.entries\<close>, the spread \<^verbatim>\<open>{...node}\<close>,
    \<^verbatim>\<open>JSON.stringify\<close>): keys that are array indices first, ascending, then the other
    keys in order of creation. Properties inherited from \<^verbatim>\<open>Object.prototype\<close> (its
    methods and the accessor \<^verbatim>\<open>__proto__\<close>) are not modelled: a key is the name of a data
    field of the document.
\<close>

datatype json =
    JUndefined
  | JNull
  | JBool bool
  | JNum int
  | JStr string
  | JArr "json list"
  | JObj "(string \<times> json) list"

text \<open>A path segment (\<^verbatim>\<open>string | number\<close>): an array index or an object key.\<close>

datatype segment = SNum nat | SStr string

type_synonym path = "segment list"

subsection \<open>Decimal text of a number\<close>

definition digit :: "nat \<Rightarrow> char" where
  "digit d = ''0123456789'' ! d"

function decimal :: "nat \<Rightarrow> string" where
  "decimal n = (if n < 10 then [digit n] else decimal (n div 10) @ [digit (n mod 10)])"
  by pat_completeness auto
termination
  by (relation "measure id") auto

declare decimal.simps [simp del]

text \<open>\<^verbatim>\<open>String(n)\<close> for a number \<open>n\<close>.\<close>

definition number_text :: "int \<Rightarrow> string" where
  "number_text i = (if i < 0 then CHR ''-'' # decimal (nat (- i)) else decimal (nat i))"

subsection \<open>Arrays\<close>

text \<open>\<^verbatim>\<open>arr[idx]\<close>: reading past the end gives \<^verbatim>\<open>undefined\<close>.\<close>

definition arr_get :: "json list \<Rightarrow> nat \<Rightarrow> json" where
  "arr_get xs idx = (if idx < length xs then xs ! idx else JUndefined)"

text \<open>
  \<^verbatim>\<open>arr[idx] = v\<close>: writing past the end extends the array, leaving holes between. (An
  index is an array index of JavaScript, below \<open>2\<^sup>3\<^sup>2 - 1\<close>.)
\<close>

definition arr_set :: "json list \<Rightarrow> nat \<Rightarrow> json \<Rightarrow> json list" where
  "arr_set xs idx v =
     (if idx < length xs then xs[idx := v]
      else xs @ replicate (idx - length xs) JUndefined @ [v])"

subsection \<open>Objects\<close>

text \<open>
  An array index is a key that is the canonical decimal text of an integer below
  \<open>2\<^sup>3\<^sup>2 - 1\<close>. JavaScript enumerates such keys before all others.
\<close>

definition digit_val :: "char \<Rightarrow> nat option" where
  "digit_val c =
     (let code = (of_char c :: nat)
      in if 48 \<le> code \<and> code \<le> 57 then Some (code - 48) else None)"

fun decimal_value :: "nat \<Rightarrow> string \<Rightarrow> nat option" where
  "decimal_value acc [] = Some acc"
| "decimal_value acc (c # cs) =
     (case digit_val c of None \<Rightarrow> None | Some d \<Rightarrow> decimal_value (10 * acc + d) cs)"

definition array_index :: "string \<Rightarrow> nat option" where
  "array_index k =
     (if k = [] then None
      else case decimal_value 0 k of
             None \<Rightarrow> None
           | Some n \<Rightarrow> if decimal n = k \<and> n < 2 ^ 32 - 1 then Some n else None)"

text \<open>Does a new key \<open>k\<close> come before the existing key \<open>k'\<close> in enumeration order?\<close>

definition key_before :: "string \<Rightarrow> string \<Rightarrow> bool" where
  "key_before k k' =
     (case array_index k of
        None \<Rightarrow> False
      | Some n \<Rightarrow> (case array_index k' of None \<Rightarrow> True | Some m \<Rightarrow> n < m))"

text \<open>Creating a property that the object does not have yet.\<close>

fun obj_insert :: "string \<Rightarrow> 'v \<Rightarrow> (string \<times> 'v) list \<Rightarrow> (string \<times> 'v) list" where
  "obj_insert k v [] = [(k, v)]"
| "obj_insert k v (p # ps) =
     (if key_before k (fst p) then (k, v) # p # ps else p # obj_insert k v ps)"

text \<open>\<^verbatim>\<open>obj[key]\<close>: a missing property reads as \<^verbatim>\<open>undefined\<close>.\<close>

definition obj_get :: "(string \<times> json) list \<Rightarrow> string \<Rightarrow> json" where
  "obj_get ps k = (case map_of ps k of None \<Rightarrow> JUndefined | Some v \<Rightarrow> v)"

text \<open>\<^verbatim>\<open>obj[key] = v\<close>: an existing property keeps its place, a new one is created.\<close>

definition obj_set :: "(string \<times> 'v) list \<Rightarrow> string \<Rightarrow> 'v \<Rightarrow> (string \<times> 'v) list" where
  "obj_set ps k v = (if k \<in> fst ` set ps then AList.update k v ps else obj_insert k v ps)"

text \<open>
  \<^verbatim>\<open>Array.isArray(node) ? [...node] : []\<close> and
  \<^verbatim>\<open>node && typeof node === "object" && !Array.isArray(node) ? {...node} : {}\<close>: the
  elements of an array and the properties of a plain object, nothing for any other value.
\<close>

fun elements_of :: "json \<Rightarrow> json list" where
  "elements_of (JArr xs) = xs"
| "elements_of _ = []"

fun fields_of :: "json \<Rightarrow> (string \<times> json) list" where
  "fields_of (JObj ps) = ps"
| "fields_of _ = []"

section \<open>The path helpers\<close>

subsection \<open>\<^verbatim>\<open>getValueByPath\<close>\<close>

text \<open>The \<^verbatim>\<open>for (const seg of path)\<close> loop, with \<open>cur\<close> as the loop variable.\<close>

fun get_loop :: "json \<Rightarrow> path \<Rightarrow> json" where
  "get_loop cur [] = cur"
| "get_loop cur (seg # rest) =
     (if cur = JUndefined \<or> cur = JNull then JUndefined
      else case seg of
        SNum idx \<Rightarrow>
          (case cur of JArr xs \<Rightarrow> get_loop (arr_get xs idx) rest | _ \<Rightarrow> JUndefined)
      | SStr k \<Rightarrow>
          (case cur of JObj ps \<Rightarrow> get_loop (obj_get ps k) rest | _ \<Rightarrow> JUndefined))"

definition getValueByPath :: "json \<Rightarrow> path option \<Rightarrow> json" where
  "getValueByPath root p =
     (case p of
        None \<Rightarrow> root
      | Some segs \<Rightarrow> if length segs = 0 then root else get_loop root segs)"

subsection \<open>\<^verbatim>\<open>setValueByPath\<close>\<close>

text \<open>
  The inner function \<^verbatim>\<open>setAt\<close>. The copy \<^verbatim>\<open>[...node]\<close> or \<^verbatim>\<open>{...node}\<close> of an immutable
  value is the value itself.
  On an empty segment list the source destructures \<^verbatim>\<open>head\<close> to \<^verbatim>\<open>undefined\<close> and
  writes the key \<^verbatim>\<open>String(undefined)\<close>; \<^verbatim>\<open>setValueByPath\<close> never calls it so.
\<close>

fun setAt :: "json \<Rightarrow> json \<Rightarrow> path \<Rightarrow> json" where
  "setAt val node [] =
     (let obj = fields_of node
      in JObj (obj_set obj ''undefined'' val))"
| "setAt val node (head # rest) =
     (case head of
        SNum idx \<Rightarrow>
          (let arr = elements_of node;
               current = arr_get arr idx
           in JArr (arr_set arr idx (if length rest = 0 then val else setAt val current rest)))
      | SStr key \<Rightarrow>
          (let obj = fields_of node
           in JObj (obj_set obj key
                (if length rest = 0 then val else setAt val (obj_get obj key) rest))))"

definition setValueByPath :: "json \<Rightarrow> path option \<Rightarrow> json \<Rightarrow> json" where
  "setValueByPath root p val =
     (case p of
        None \<Rightarrow> val
      | Some segs \<Rightarrow> if length segs = 0 then val else setAt val root segs)"

subsection \<open>\<^verbatim>\<open>mergePrimitivesAtPath\<close>\<close>

text \<open>\<^verbatim>\<open>v !== null && typeof v === "object"\<close>: an array or an object.\<close>

fun is_container :: "json \<Rightarrow> bool" where
  "is_container (JArr _) = True"
| "is_container (JObj _) = True"
| "is_container _ = False"

text \<open>The loop over \<^verbatim>\<open>Object.entries(partial)\<close>; \<^verbatim>\<open>continue\<close> skips an entry.\<close>

fun merge_loop :: "(string \<times> json) list \<Rightarrow> (string \<times> json) list \<Rightarrow> (string \<times> json) list" where
  "merge_loop base [] = base"
| "merge_loop base ((k, v) # entries) =
     (if is_container v then merge_loop base entries
      else merge_loop (obj_set base k v) entries)"

definition mergePrimitivesAtPath :: "json \<Rightarrow> path option \<Rightarrow> (string \<times> json) list \<Rightarrow> json" where
  "mergePrimitivesAtPath root p partial =
     (let target = getValueByPath root p;
          base = fields_of target
      in setValueByPath root p (JObj (merge_loop base partial)))"

subsection \<open>\<^verbatim>\<open>pathsEqual\<close>\<close>

text \<open>The \<^verbatim>\<open>for (let i = 0; i < a.length; i++)\<close> loop, entered with equal lengths.\<close>

function pathsEqual_loop :: "path \<Rightarrow> path \<Rightarrow> nat \<Rightarrow> bool" where
  "pathsEqual_loop a b i =
     (if i < length a
      then (if a ! i \<noteq> b ! i then False else pathsEqual_loop a b (i + 1))
      else True)"
  by pat_completeness auto
termination
  by (relation "measure (\<lambda>(a, b, i). length a - i)") auto

declare pathsEqual_loop.simps [simp del]

text \<open>
  \<^verbatim>\<open>a === b\<close> holds when both are \<^verbatim>\<open>undefined\<close> or both are the same array; in the second
  case the loop returns \<^verbatim>\<open>true\<close> as well, so the shortcut is modelled for absent paths only.
  An array, even the empty one, is truthy.
\<close>

definition pathsEqual :: "path option \<Rightarrow> path option \<Rightarrow> bool" where
  "pathsEqual a b =
     (case (a, b) of
        (None, None) \<Rightarrow> True
      | (None, Some _) \<Rightarrow> False
      | (Some _, None) \<Rightarrow> False
      | (Some xs, Some ys) \<Rightarrow>
          if length xs \<noteq> length ys then False else pathsEqual_loop xs ys 0)"

subsection \<open>\<^verbatim>\<open>jsonPathToString\<close>\<close>

text \<open>\<^verbatim>\<open>Array.prototype.join\<close>.\<close>

fun join :: "string \<Rightarrow> string list \<Rightarrow> string" where
  "join sep [] = []"
| "join sep [x] = x"
| "join sep (x # y # ys) = x @ sep @ join sep (y # ys)"



section \<open>Text of a value\<close>

text \<open>
  A string is modelled by its sequence of bytes; the escapes of \<^verbatim>\<open>JSON.stringify\<close> concern
  the quote, the backslash and the control characters only, which are single bytes.
\<close>

text \<open>
  \<^verbatim>\<open>`${value}`\<close>: the string conversion of a value. An array joins its elements with
  commas, \<^verbatim>\<open>null\<close> and \<^verbatim>\<open>undefined\<close> elements giving the empty text; a plain object gives
  \<^verbatim>\<open>[object Object]\<close>.
\<close>

fun to_string :: "json \<Rightarrow> string" where
  "to_string JUndefined = ''undefined''"
| "to_string JNull = ''null''"
| "to_string (JBool b) = (if b then ''true'' else ''false'')"
| "to_string (JNum n) = number_text n"
| "to_string (JStr s) = s"
| "to_string (JArr xs) =
     join '','' (map (\<lambda>x. if x = JUndefined \<or> x = JNull then [] else to_string x) xs)"
| "to_string (JObj ps) = ''[object Object]''"

definition hex_digit :: "nat \<Rightarrow> char" where
  "hex_digit d = ''0123456789abcdef'' ! d"

text \<open>The escape of one character inside a JSON string.\<close>

definition escape_char :: "char \<Rightarrow> string" where
  "escape_char c =
     (if c = CHR 0x22 then [CHR 0x5C, CHR 0x22]
      else if c = CHR 0x5C then [CHR 0x5C, CHR 0x5C]
      else if c = CHR 0x08 then [CHR 0x5C, CHR ''b'']
      else if c = CHR 0x0C then [CHR 0x5C, CHR ''f'']
      else if c = CHR 0x0A then [CHR 0x5C, CHR ''n'']
      else if c = CHR 0x0D then [CHR 0x5C, CHR ''r'']
      else if c = CHR 0x09 then [CHR 0x5C, CHR ''t'']
      else if (of_char c :: nat) < 32
        then [CHR 0x5C, CHR ''u'', CHR ''0'', CHR ''0'',
              hex_digit (of_char c div 16), hex_digit (of_char c mod 16)]
      else [c])"

definition quote :: "string \<Rightarrow> string" where
  "quote s = CHR 0x22 # concat (map escape_char s) @ [CHR 0x22]"

text \<open>
  \<^verbatim>\<open>JSON.stringify(value, null, 2)\<close>, with the current indentation as first argument. The
  result is \<^verbatim>\<open>undefined\<close> (\<open>None\<close>) for \<^verbatim>\<open>undefined\<close>; an \<^verbatim>\<open>undefined\<close> array element is
  written \<^verbatim>\<open>null\<close> and a property whose value is \<^verbatim>\<open>undefined\<close> is left out.
\<close>

definition gap :: string where
  "gap = ''  ''"

definition newline :: string where
  "newline = [CHR 0x0A]"

definition bracketed :: "string \<Rightarrow> string \<Rightarrow> string \<Rightarrow> string list \<Rightarrow> string" where
  "bracketed opening closing ind items =
     (if items = [] then opening @ closing
      else opening @ newline @ ind @ gap
           @ join ('','' @ newline @ ind @ gap) items
           @ newline @ ind @ closing)"

fun member_text :: "string \<times> string option \<Rightarrow> string list" where
  "member_text (k, None) = []"
| "member_text (k, Some t) = [quote k @ '': '' @ t]"

fun element_text :: "string option \<Rightarrow> string" where
  "element_text None = ''null''"
| "element_text (Some t) = t"

fun serialize :: "string \<Rightarrow> json \<Rightarrow> string option" where
  "serialize ind JUndefined = None"
| "serialize ind JNull = Some ''null''"
| "serialize ind (JBool b) = Some (if b then ''true'' else ''false'')"
| "serialize ind (JNum n) = Some (number_text n)"
| "serialize ind (JStr s) = Some (quote s)"
| "serialize ind (JArr xs) =
     Some (bracketed ''['' '']'' ind
             (map (\<lambda>x. element_text (serialize (ind @ gap) x)) xs))"
| "serialize ind (JObj ps) =
     Some (bracketed ''{'' ''}'' ind
             (concat (map (\<lambda>(k, v). member_text (k, serialize (ind @ gap) v)) ps)))"

definition JSON_stringify :: "json \<Rightarrow> string option" where
  "JSON_stringify v = serialize [] v"

section \<open>\<^verbatim>\<open>normalizeNodeData\<close>\<close>

text \<open>
  Modelled from the spec: the row type of \<^verbatim>\<open>NodeData["text"]\<close>, declared in
  \<^verbatim>\<open>src/types/graph\<close>: an optional string key, a value and a type tag.
\<close>

record node_row =
  row_key :: "string option"
  row_value :: json
  row_type :: string

text \<open>The truthiness of \<^verbatim>\<open>row.key\<close>: an absent key and the empty string are falsy.\<close>

fun truthy_key :: "string option \<Rightarrow> bool" where
  "truthy_key None = False"
| "truthy_key (Some k) = (k \<noteq> [])"

text \<open>The body of \<^verbatim>\<open>nodeRows.forEach\<close>, with the object under construction.\<close>

fun forEach_row :: "(string \<times> json) list \<Rightarrow> node_row list \<Rightarrow> (string \<times> json) list" where
  "forEach_row obj [] = obj"
| "forEach_row obj (row # rows) =
     forEach_row
       (if row_type row \<noteq> ''array'' \<and> row_type row \<noteq> ''object''
        then (case row_key row of
                Some k \<Rightarrow> if truthy_key (row_key row) then obj_set obj k (row_value row) else obj
              | None \<Rightarrow> obj)
        else obj)
       rows"

definition normalizeNodeData :: "node_row list option \<Rightarrow> string option" where
  "normalizeNodeData nodeRows =
     (case nodeRows of
        None \<Rightarrow> Some ''{}''
      | Some rows \<Rightarrow>
          if length rows = 0 then Some ''{}''
          else if length rows = 1 \<and> \<not> truthy_key (row_key (rows ! 0))
            then Some (to_string (row_value (rows ! 0)))
          else JSON_stringify (JObj (forEach_row [] rows)))"

section \<open>The save handler of the modal\<close>

text \<open>
  Modelled from the spec: the selected node (\<^verbatim>\<open>NodeData\<close>, declared in \<^verbatim>\<open>src/types/graph\<close>)
  with its path and rows, and the two stores the handler talks to. The document store
  (\<^verbatim>\<open>useFile\<close>) holds the document text; \<^verbatim>\<open>setContents\<close> replaces it and marks it changed.
  The graph store (\<^verbatim>\<open>useGraph\<close>) holds the selected node and the node list.
  \<open>isEditing\<close> and \<open>draft\<close> are the state of the component, \<open>alerts\<close> the dialogs shown so
  far, and \<open>setContents_calls\<close> counts the calls of \<^verbatim>\<open>setContents\<close>.
\<close>

record node_data =
  node_path :: "path option"
  node_text :: "node_row list option"

record session =
  selectedNode :: "node_data option"
  nodes :: "node_data list"
  contents :: "string option"
  hasChanges :: bool
  isEditing :: bool
  draft :: string
  alerts :: "string list"
  setContents_calls :: nat

text \<open>
  \<^verbatim>\<open>JSON.parse\<close> is a parameter of the model: a function from a text to a value, or to the
  message of the \<^verbatim>\<open>SyntaxError\<close> it throws. So is the node list that the graph store
  shows right after \<^verbatim>\<open>setContents\<close> has returned, as a function of the new text and the
  old list.
\<close>

type_synonym parser = "string \<Rightarrow> string + json"

type_synonym graph_pipeline = "string option \<Rightarrow> node_data list \<Rightarrow> node_data list"

text \<open>Truthiness, \<^verbatim>\<open>typeof\<close> and \<^verbatim>\<open>Array.isArray\<close>.\<close>

fun truthy :: "json \<Rightarrow> bool" where
  "truthy JUndefined = False"
| "truthy JNull = False"
| "truthy (JBool b) = b"
| "truthy (JNum n) = (n \<noteq> 0)"
| "truthy (JStr s) = (s \<noteq> [])"
| "truthy (JArr _) = True"
| "truthy (JObj _) = True"

fun typeof :: "json \<Rightarrow> string" where
  "typeof JUndefined = ''undefined''"
| "typeof JNull = ''object''"
| "typeof (JBool _) = ''boolean''"
| "typeof (JNum _) = ''number''"
| "typeof (JStr _) = ''string''"
| "typeof (JArr _) = ''object''"
| "typeof (JObj _) = ''object''"

fun isArray :: "json \<Rightarrow> bool" where
  "isArray (JArr _) = True"
| "isArray _ = False"

text \<open>\<^verbatim>\<open>getContents()\<close> as \<^verbatim>\<open>JSON.parse\<close> reads it: a missing text converts to \<^verbatim>\<open>"undefined"\<close>.\<close>

definition getContents :: "session \<Rightarrow> string" where
  "getContents s = (case contents s of None \<Rightarrow> ''undefined'' | Some t \<Rightarrow> t)"

definition alert :: "string \<Rightarrow> session \<Rightarrow> session" where
  "alert message s = s\<lparr>alerts := alerts s @ [message]\<rparr>"

definition setContents :: "graph_pipeline \<Rightarrow> string option \<Rightarrow> session \<Rightarrow> session" where
  "setContents pipeline text s =
     s\<lparr>contents := text, hasChanges := True,
       setContents_calls := Suc (setContents_calls s),
       nodes := pipeline text (nodes s)\<rparr>"

text \<open>\<^verbatim>\<open>nodeData.text && nodeData.text.length === 1 && !nodeData.text[0].key\<close>\<close>

definition isPrimitiveNode :: "node_data \<Rightarrow> bool" where
  "isPrimitiveNode nodeData =
     (case node_text nodeData of
        None \<Rightarrow> False
      | Some rows \<Rightarrow> length rows = 1 \<and> \<not> truthy_key (row_key (rows ! 0)))"

text \<open>
  The end of the handler, once \<^verbatim>\<open>newRoot\<close> is known: write the document back, leave edit
  mode, and select again the node that has the path of the edited one.
\<close>

definition write_back :: "graph_pipeline \<Rightarrow> node_data \<Rightarrow> json \<Rightarrow> session \<Rightarrow> session" where
  "write_back pipeline nodeData newRoot s =
     (let s1 = setContents pipeline (JSON_stringify newRoot) s;
          s2 = s1\<lparr>isEditing := False\<rparr>
      in case find (\<lambda>n. pathsEqual (node_path n) (node_path nodeData)) (nodes s2) of
           None \<Rightarrow> s2
         | Some matched \<Rightarrow> s2\<lparr>selectedNode := Some matched\<rparr>)"

text \<open>The \<^verbatim>\<open>onClick\<close> handler of the Save button.\<close>

definition save :: "parser \<Rightarrow> graph_pipeline \<Rightarrow> session \<Rightarrow> session" where
  "save parse pipeline s =
     (case selectedNode s of
        None \<Rightarrow> s
      | Some nodeData \<Rightarrow>
          (case parse (getContents s) of
             Inl message \<Rightarrow> alert (''App JSON is invalid: '' @ message) s
           | Inr root \<Rightarrow>
               (case parse (draft s) of
                  Inl message \<Rightarrow> alert (''Invalid JSON in editor: '' @ message) s
                | Inr parsed \<Rightarrow>
                    if isPrimitiveNode nodeData then
                      (if parsed \<noteq> JNull \<and> typeof parsed = ''object''
                       then alert
                         ''Expected a primitive value for this node (string, number, boolean, or null)''
                         s
                       else write_back pipeline nodeData
                              (setValueByPath root (node_path nodeData) parsed) s)
                    else
                      (if \<not> truthy parsed \<or> typeof parsed \<noteq> ''object'' \<or> isArray parsed
                       then alert ''Expected an object for this node'' s
                       else write_back pipeline nodeData
                              (mergePrimitivesAtPath root (node_path nodeData) (fields_of parsed))
                              s))))"

section \<open>The store: \<^verbatim>\<open>setValueByPath\<close> with allocation and assignment\<close>

text \<open>
  Arrays and objects are mutable cells of a store and a value refers to them by address.
  A spread copy allocates a cell, \<^verbatim>\<open>arr[idx] = \<dots>\<close> and \<^verbatim>\<open>obj[key] = \<dots>\<close> overwrite a cell.
  This version of \<^verbatim>\<open>setAt\<close> follows the statements of the source in their order:
  the copy, the read of the current child, the recursive call, the assignment.
\<close>

datatype ref_value =
    VUndefined
  | VNull
  | VBool bool
  | VNum int
  | VStr string
  | VRef nat

datatype cell = ArrCell "ref_value list" | ObjCell "(string \<times> ref_value) list"

type_synonym store = "cell list"








text \<open>
  A value of the store represents a JSON value when following its references, through
  cells with addresses in \<open>D\<close> only, reads that value.
\<close>

fun represents_in :: "nat set \<Rightarrow> store \<Rightarrow> ref_value \<Rightarrow> json \<Rightarrow> bool"
  and represents_list :: "nat set \<Rightarrow> store \<Rightarrow> ref_value list \<Rightarrow> json list \<Rightarrow> bool"
  and represents_fields ::
    "nat set \<Rightarrow> store \<Rightarrow> (string \<times> ref_value) list \<Rightarrow> (string \<times> json) list \<Rightarrow> bool"
where
  "represents_in D st v JUndefined = (v = VUndefined)"
| "represents_in D st v JNull = (v = VNull)"
| "represents_in D st v (JBool b) = (v = VBool b)"
| "represents_in D st v (JNum n) = (v = VNum n)"
| "represents_in D st v (JStr s) = (v = VStr s)"
| "represents_in D st v (JArr js) =
     (case v of
        VRef a \<Rightarrow> a \<in> D \<and> a < length st
          \<and> (case st ! a of ArrCell xs \<Rightarrow> represents_list D st xs js | ObjCell _ \<Rightarrow> False)
      | _ \<Rightarrow> False)"
| "represents_in D st v (JObj fs) =
     (case v of
        VRef a \<Rightarrow> a \<in> D \<and> a < length st
          \<and> (case st ! a of ObjCell ps \<Rightarrow> represents_fields D st ps fs | ArrCell _ \<Rightarrow> False)
      | _ \<Rightarrow> False)"
| "represents_list D st [] [] = True"
| "represents_list D st (x # xs) (j # js) = (represents_in D st x j \<and> represents_list D st xs js)"
| "represents_list D st [] (j # js) = False"
| "represents_list D st (x # xs) [] = False"
| "represents_fields D st [] [] = True"
| "represents_fields D st ((k, x) # ps) ((k', j) # fs) =
     (k = k' \<and> represents_in D st x j \<and> represents_fields D st ps fs)"
| "represents_fields D st [] (f # fs) = False"
| "represents_fields D st (p # ps) [] = False"



section \<open>Definitions that follow the specification\<close>





text \<open>
  The order in which JavaScript enumerates the properties of an object: the keys that are
  array indices in ascending order, then the other keys in the order of their creation.
\<close>

definition index_rank :: "string \<times> 'v \<Rightarrow> nat" where
  "index_rank p = (case array_index (fst p) of None \<Rightarrow> 0 | Some n \<Rightarrow> n)"

definition indexed :: "string \<times> 'v \<Rightarrow> bool" where
  "indexed p = (array_index (fst p) \<noteq> None)"


text \<open>
  The primitive node of the specification: a single row, and that row has no key.
\<close>

fun keyless_single_row :: "node_data \<Rightarrow> bool" where
  "keyless_single_row nodeData =
     (case node_text nodeData of
        Some [r] \<Rightarrow> row_key r = None
      | _ \<Rightarrow> False)"

text \<open>Replacing the value of the member with key \<open>k\<close>, used in the proofs below.\<close>

definition put :: "string \<Rightarrow> 'v \<Rightarrow> string \<times> 'v \<Rightarrow> string \<times> 'v" where
  "put k v p = (if fst p = k then (k, v) else p)"





section \<open>Properties\<close>

subsection \<open>Reading and writing containers\<close>







text \<open>
  C8. The empty path and the absent path denote the whole document: reading returns the
  root and writing returns the written value, whatever the root was.
\<close>

theorem empty_path_is_document:
  "getValueByPath R None = R \<and> getValueByPath R (Some []) = R
   \<and> setValueByPath R None V = V \<and> setValueByPath R (Some []) V = V"
  by (simp add: getValueByPath_def setValueByPath_def)


subsection \<open>Path equality and path text\<close>

lemma pathsEqual_loop_iff:
  "length a = length b \<Longrightarrow> pathsEqual_loop a b i = (\<forall>j. i \<le> j \<and> j < length a \<longrightarrow> a ! j = b ! j)"
proof (induction a b i rule: pathsEqual_loop.induct)
  case (1 a b i)
  show ?case
  proof (cases "i < length a")
    case False
    then show ?thesis by (subst pathsEqual_loop.simps) auto
  next
    case True
    show ?thesis
    proof (cases "a ! i = b ! i")
      case False
      with True show ?thesis by (subst pathsEqual_loop.simps) auto
    next
      case same: True
      have "pathsEqual_loop a b i = pathsEqual_loop a b (i + 1)"
        using True same by (subst pathsEqual_loop.simps) simp
      also have "\<dots> = (\<forall>j. i + 1 \<le> j \<and> j < length a \<longrightarrow> a ! j = b ! j)"
        using "1.IH" True same "1.prems" by simp
      also have "\<dots> = (\<forall>j. i \<le> j \<and> j < length a \<longrightarrow> a ! j = b ! j)"
      proof (intro iffI allI impI)
        fix j
        assume h: "\<forall>j. i + 1 \<le> j \<and> j < length a \<longrightarrow> a ! j = b ! j"
          and j: "i \<le> j \<and> j < length a"
        show "a ! j = b ! j"
        proof (cases "j = i")
          case True
          with same show ?thesis by simp
        next
          case False
          with j have "i + 1 \<le> j" by simp
          with h j show ?thesis by blast
        qed
      next
        fix j
        assume h: "\<forall>j. i \<le> j \<and> j < length a \<longrightarrow> a ! j = b ! j"
          and j: "i + 1 \<le> j \<and> j < length a"
        then have "i \<le> j \<and> j < length a" by simp
        with h show "a ! j = b ! j" by blast
      qed
      finally show ?thesis .
    qed
  qed
qed

text \<open>
  C7. Two present paths are equal exactly when they have the same length and equal
  segments at every position. A number segment never equals a string segment, not even
  the string of its own decimal text. Every path, present or absent, equals itself.
\<close>

theorem pathsEqual_elementwise:
  "(pathsEqual (Some A) (Some B) \<longleftrightarrow> length A = length B \<and> (\<forall>i<length A. A ! i = B ! i))
   \<and> \<not> pathsEqual (Some [SNum n]) (Some [SStr (decimal n)])
   \<and> pathsEqual P P
   \<and> \<not> pathsEqual (Some [SNum 1]) (Some [SStr ''1''])"
proof -
  have iff: "pathsEqual (Some A) (Some B) \<longleftrightarrow> length A = length B \<and> (\<forall>i<length A. A ! i = B ! i)" for A B
    by (auto simp: pathsEqual_def pathsEqual_loop_iff)
  have refl: "pathsEqual P P"
    by (cases P) (simp_all add: pathsEqual_def pathsEqual_loop_iff)
  show ?thesis using iff refl by simp
qed

theorem pathsEqual_elementwise_witness:
  "\<not> pathsEqual (Some [SStr ''a'', SNum 0]) (Some [SStr ''a'', SNum 1])
   \<and> pathsEqual (Some [SStr ''a'', SNum 0]) (Some [SStr ''a'', SNum 0])"
proof -
  let ?A = "[SStr ''a'', SNum 0]" and ?B = "[SStr ''a'', SNum 1]"
  have "\<not> (\<forall>i<length ?A. ?A ! i = ?B ! i)"
  proof
    assume "\<forall>i<length ?A. ?A ! i = ?B ! i"
    then have "1 < length ?A \<longrightarrow> ?A ! 1 = ?B ! 1" by blast
    then show False by simp
  qed
  then have "\<not> pathsEqual (Some ?A) (Some ?B)"
    using pathsEqual_elementwise [of ?A ?B] by blast
  moreover have "\<forall>i<length ?A. ?A ! i = ?A ! i" by simp
  then have "pathsEqual (Some ?A) (Some ?A)"
    using pathsEqual_elementwise [of ?A ?A] by blast
  ultimately show ?thesis by simp
qed

text \<open>
  C10. With exactly one argument absent the result is false, even against the empty
  path, although the absent and the empty path address the same value; two absent paths
  are equal and two empty paths are equal.
\<close>

theorem pathsEqual_absent:
  "pathsEqual None None \<and> pathsEqual (Some []) (Some [])
   \<and> \<not> pathsEqual None (Some B) \<and> \<not> pathsEqual (Some A) None
   \<and> \<not> pathsEqual None (Some [])
   \<and> getValueByPath R None = getValueByPath R (Some [])"
  by (simp add: pathsEqual_def getValueByPath_def pathsEqual_loop_iff)



subsection \<open>Merging primitive fields\<close>







lemmas eval_defs = getValueByPath_def setValueByPath_def mergePrimitivesAtPath_def Let_def
    obj_get_def obj_set_def arr_get_def arr_set_def key_before_def array_index_def
    digit_val_def digit_def decimal.simps








subsection \<open>What a write leaves alone\<close>












lemma represents_fields_all2:
  "represents_fields D st ps fs =
     list_all2 (\<lambda>p f. fst p = fst f \<and> represents_in D st (snd p) (snd f)) ps fs"
proof (induction ps arbitrary: fs)
  case Nil
  show ?case by (cases fs) simp_all
next
  case (Cons p ps)
  show ?case
  proof (cases fs)
    case Nil
    then show ?thesis by simp
  next
    case (Cons f fs')
    then show ?thesis using Cons.IH [of fs'] by (cases p; cases f) simp
  qed
qed




















lemmas text_defs = normalizeNodeData_def JSON_stringify_def bracketed_def gap_def newline_def
  quote_def escape_char_def number_text_def hex_digit_def

subsection \<open>Normalising the rows of a node\<close>





lemma fst_put [simp]: "fst (put k v p) = fst p"
  by (simp add: put_def)

lemma indexed_put [simp]: "indexed (put k v p) = indexed p"
  by (simp add: indexed_def)

lemma index_rank_put [simp]: "index_rank (put k v p) = index_rank p"
  by (simp add: index_rank_def)


















subsection \<open>Refusing a save\<close>

lemma alert_keeps:
  "contents (alert m s) = contents s \<and> setContents_calls (alert m s) = setContents_calls s
   \<and> isEditing (alert m s) = isEditing s \<and> draft (alert m s) = draft s
   \<and> hasChanges (alert m s) = hasChanges s \<and> selectedNode (alert m s) = selectedNode s"
  by (simp add: alert_def)

lemma save_rejects:
  assumes "selectedNode s = Some nodeData"
    and "(\<exists>message. parse (getContents s) = Inl message)
       \<or> (\<exists>root parsed. parse (getContents s) = Inr root \<and> parse (draft s) = Inr parsed
            \<and> (if isPrimitiveNode nodeData then is_container parsed
                else \<forall>ps. parsed \<noteq> JObj ps))"
  shows "\<exists>message. save parse pipeline s = alert message s"
proof -
  from assms(2) show ?thesis
  proof (elim disjE exE conjE)
    fix message assume "parse (getContents s) = Inl message"
    with assms(1) show ?thesis by (auto simp: save_def)
  next
    fix root parsed
    assume p: "parse (getContents s) = Inr root" "parse (draft s) = Inr parsed"
      and shape: "if isPrimitiveNode nodeData then is_container parsed else \<forall>ps. parsed \<noteq> JObj ps"
    show ?thesis
    proof (cases "isPrimitiveNode nodeData")
      case True
      with shape have "parsed \<noteq> JNull \<and> typeof parsed = ''object''"
        by (cases parsed) simp_all
      with True p assms(1) show ?thesis by (auto simp: save_def)
    next
      case False
      with shape have "\<not> truthy parsed \<or> typeof parsed \<noteq> ''object'' \<or> isArray parsed"
        by (cases parsed) simp_all
      with False p assms(1) show ?thesis by (auto simp: save_def)
    qed
  qed
qed

lemma isPrimitiveNode_keyless:
  assumes "\<forall>r. node_text nodeData = Some [r] \<longrightarrow> row_key r \<noteq> Some []"
  shows "isPrimitiveNode nodeData = keyless_single_row nodeData"
proof (cases "node_text nodeData")
  case None
  then show ?thesis by (simp add: isPrimitiveNode_def)
next
  case (Some rows)
  show ?thesis
  proof (cases rows)
    case Nil
    with Some show ?thesis by (simp add: isPrimitiveNode_def)
  next
    case (Cons r rs)
    show ?thesis
    proof (cases rs)
      case Nil
      with Cons Some assms have "row_key r \<noteq> Some []" by simp
      then have "truthy_key (row_key r) = (row_key r \<noteq> None)"
        by (cases "row_key r") simp_all
      with Nil Cons Some show ?thesis by (simp add: isPrimitiveNode_def)
    next
      case (Cons r' rs')
      with \<open>rows = r # rs\<close> Some show ?thesis by (simp add: isPrimitiveNode_def)
    qed
  qed
qed

lemma save_aborts_unless_empty_key:
  assumes "selectedNode s = Some nodeData"
    and "\<forall>r. node_text nodeData = Some [r] \<longrightarrow> row_key r \<noteq> Some []"
    and "(\<exists>message. parse (getContents s) = Inl message)
       \<or> (\<exists>root parsed. parse (getContents s) = Inr root \<and> parse (draft s) = Inr parsed
            \<and> (if keyless_single_row nodeData then is_container parsed
                else \<forall>ps. parsed \<noteq> JObj ps))"
  shows "\<exists>message. save parse pipeline s = alert message s"
  using assms(1) assms(3) unfolding isPrimitiveNode_keyless [OF assms(2), symmetric]
  by (rule save_rejects)

text \<open>
  C5. The claim holds with one exception, which is a defect of the code. Unless the
  single row of the node has the empty string as key, a save is refused as the claim says
  when the document does not parse and when the draft has the wrong shape for the kind of
  node: an alert is shown and nothing else changes (lemmas \<open>save_aborts_unless_empty_key\<close>
  and \<open>alert_keeps\<close>). But the handler detects a primitive node by
  \<^verbatim>\<open>!nodeData.text[0].key\<close>, and the empty string is falsy: a node whose single row has the
  key \<^verbatim>\<open>""\<close> is an object, yet a primitive draft is accepted for it. On the document \<open>{"a":{"":1}}\<close>, the node at
  \<open>["a"]\<close> and the draft \<open>5\<close>, \<^verbatim>\<open>setContents\<close> is called, the object is replaced by \<open>5\<close> and
  edit mode is left.
\<close>

theorem save_accepts_primitive_for_empty_key:
  "save (\<lambda>text. if text = ''{\"a\":{\"\":1}}'' then Inr (JObj [(''a'', JObj [('''', JNum 1)])])
                else if text = ''5'' then Inr (JNum 5)
                else Inl ''Unexpected token'')
        (\<lambda>text old. old)
        \<lparr>selectedNode = Some \<lparr>node_path = Some [SStr ''a''],
            node_text = Some [\<lparr>row_key = Some '''', row_value = JNum 1, row_type = ''number''\<rparr>]\<rparr>,
         nodes = [], contents = Some ''{\"a\":{\"\":1}}'', hasChanges = False,
         isEditing = True, draft = ''5'', alerts = [], setContents_calls = 0\<rparr>
   = \<lparr>selectedNode = Some \<lparr>node_path = Some [SStr ''a''],
            node_text = Some [\<lparr>row_key = Some '''', row_value = JNum 1, row_type = ''number''\<rparr>]\<rparr>,
      nodes = [], contents = Some ''{\<newline>  \"a\": 5\<newline>}'', hasChanges = True,
      isEditing = False, draft = ''5'', alerts = [], setContents_calls = 1\<rparr>"
  by (simp add: save_def getContents_def isPrimitiveNode_def write_back_def
      setContents_def Let_def text_defs eval_defs)

theorem save_accepts_primitive_for_empty_key_witness:
  "setContents_calls
     (save (\<lambda>text. if text = ''{\"a\":{\"\":1}}'' then Inr (JObj [(''a'', JObj [('''', JNum 1)])])
                else if text = ''5'' then Inr (JNum 5)
                else Inl ''Unexpected token'')
        (\<lambda>text old. old)
        \<lparr>selectedNode = Some \<lparr>node_path = Some [SStr ''a''],
            node_text = Some [\<lparr>row_key = Some '''', row_value = JNum 1, row_type = ''number''\<rparr>]\<rparr>,
         nodes = [], contents = Some ''{\"a\":{\"\":1}}'', hasChanges = False,
         isEditing = True, draft = ''5'', alerts = [], setContents_calls = 0\<rparr>) = 1"
  using save_accepts_primitive_for_empty_key by simp

end
